theory Spec2Isabelle
  imports Main "HOL-Library.Sublist" "HOL-Library.Word"
begin

unbundle bit_operations_syntax

section \<open>The build script \<open>setup.py\<close>\<close>

text \<open>
  \<open>setup.py\<close> is a script: importing it runs its statements from top to bottom, and
  the last statement calls \<open>setup\<close>. The model runs the script against an environment
  that answers every question the script asks of the outside world (which modules can
  be imported, what a directory holds, the command line, the pointer size, ...). A run
  yields the trace of the effects that happened, in order, and either the exception
  that ended the script or its normal result.
\<close>

subsection \<open>Exceptions, effects and runs\<close>

datatype py_error =
    ModuleNotFoundError string   \<comment> \<open>a failed \<open>import m\<close>; a subclass of ImportError\<close>
  | ImportError string           \<comment> \<open>\<open>raise ImportError(msg)\<close>, line 33\<close>
  | RuntimeError string          \<comment> \<open>\<open>raise RuntimeError(msg)\<close>, line 135\<close>
  | OSError string               \<comment> \<open>a file or directory that cannot be opened\<close>
  | ForeignError string          \<comment> \<open>any exception out of \<open>pip.main\<close> or the exec'd version file\<close>

record extension =
  ext_name :: string
  ext_sources :: "string list"
  extra_compile_args :: "string list"
  ext_language :: string

record setup_kwargs =
  kw_name :: string
  kw_packages :: "string list"
  kw_version :: "string option"
  kw_description :: string
  kw_long_description :: string
  kw_long_description_content_type :: string
  kw_license :: string
  kw_classifiers :: "string list"
  kw_url :: string
  kw_cmdclass :: "(string \<times> string) list"
  kw_ext_modules :: "extension list"
  kw_python_requires :: string
  kw_keywords :: string
  kw_package_data :: "(string \<times> string list) list"
  kw_install_requires :: "string list"

datatype event =
    ImportStmt string            \<comment> \<open>an import statement was executed (it may have failed)\<close>
  | PipMain "string list"
  | ListDir string
  | ReadFile string
  | ExecSource string
  | SetupCall setup_kwargs

type_synonym 'a run = "event list \<times> (py_error + 'a)"

definition ret :: "'a \<Rightarrow> 'a run" where
  "ret x = ([], Inr x)"

definition raise :: "py_error \<Rightarrow> 'a run" where
  "raise e = ([], Inl e)"

definition emit :: "event \<Rightarrow> unit run" where
  "emit ev = ([ev], Inr ())"

text \<open>Sequencing of statements: an exception skips everything that follows it.\<close>

definition and_then :: "'a run \<Rightarrow> ('a \<Rightarrow> 'b run) \<Rightarrow> 'b run" where
  "and_then m f =
     (case m of
        (t, Inl e) \<Rightarrow> (t, Inl e)
      | (t, Inr x) \<Rightarrow> (case f x of (t', r) \<Rightarrow> (t @ t', r)))"

subsection \<open>The environment\<close>

record env =
  importable :: "string \<Rightarrow> bool"                    \<comment> \<open>does \<open>import m\<close> succeed\<close>
  pip_main :: "string list \<Rightarrow> string option"         \<comment> \<open>\<open>pip.main(args)\<close>: the exception, if any\<close>
  listdir :: "string \<Rightarrow> string list option"          \<comment> \<open>\<open>os.listdir\<close>; None: the call raises\<close>
  argv :: "string list"                              \<comment> \<open>\<open>sys.argv\<close>\<close>
  default_compiler :: string                         \<comment> \<open>\<open>distutils.ccompiler.get_default_compiler()\<close>\<close>
  version_file :: "string option"                    \<comment> \<open>text of \<open>ansys/mapdl/reader/_version.py\<close>\<close>
  exec_version :: "string \<Rightarrow> string + string option" \<comment> \<open>\<open>exec\<close> of that text: the exception, or \<open>__version__\<close>\<close>
  calcsize_P :: nat                                  \<comment> \<open>\<open>struct.calcsize("P")\<close>\<close>
  executable :: string                               \<comment> \<open>\<open>sys.executable\<close>\<close>
  readme :: "string option"                          \<comment> \<open>text of \<open>README.rst\<close>\<close>

text \<open>
  \<open>import m\<close>: the statement is recorded, and it raises when the module is missing.
  The modules of the standard library that the script imports in lines 2 to 8
  (\<open>platform\<close>, \<open>re\<close>, \<open>subprocess\<close>, \<open>struct\<close>, \<open>os\<close>, \<open>sys\<close>, \<open>io\<close>) are taken to be there.
\<close>

definition import_stmt :: "env \<Rightarrow> string \<Rightarrow> unit run" where
  "import_stmt E m =
     and_then (emit (ImportStmt m))
       (\<lambda>_. if importable E m then ret () else raise (ModuleNotFoundError m))"

subsection \<open>Lines 13 to 18: numpy, or pip to install it\<close>

definition ensure_numpy :: "env \<Rightarrow> unit run" where
  "ensure_numpy E =
     (case import_stmt E ''numpy'' of
        (t, Inr u) \<Rightarrow> (t, Inr u)
      | (t, Inl e) \<Rightarrow>
          and_then (t, Inr ())
            (\<lambda>_. and_then (import_stmt E ''pip'')
              (\<lambda>_. and_then (emit (PipMain [''install'', ''numpy>=1.14.0'']))
                (\<lambda>_. case pip_main E [''install'', ''numpy>=1.14.0''] of
                        None \<Rightarrow> ret ()
                      | Some err \<Rightarrow> raise (ForeignError err)))))"

subsection \<open>Lines 21 to 39: \<open>check_cython\<close>\<close>

text \<open>Python's \<open>sub in s\<close> on strings: \<open>sub\<close> occurs in \<open>s\<close> as a contiguous piece.\<close>

fun str_contains :: "string \<Rightarrow> string \<Rightarrow> bool" where
  "str_contains sub [] = (sub = [])"
| "str_contains sub (c # cs) = (prefix sub (c # cs) \<or> str_contains sub cs)"

text \<open>
  The \<open>for\<close> loop of lines 24 to 26: the flag starts False and is set, never cleared,
  at every file name that holds \<open>_binary_reader\<close>.
\<close>

fun scan_filenames :: "bool \<Rightarrow> string list \<Rightarrow> bool" where
  "scan_filenames has_binary_reader [] = has_binary_reader"
| "scan_filenames has_binary_reader (filename # rest) =
     (if str_contains ''_binary_reader'' filename
      then scan_filenames True rest
      else scan_filenames has_binary_reader rest)"

definition cython_message :: string where
  "cython_message =
     ''\<newline>\<newline>\<newline>To build pyansys please install Cython with:\<newline>\<newline>pip install cython\<newline>\<newline>''"

definition check_cython :: "env \<Rightarrow> unit run" where
  "check_cython E =
     and_then (emit (ListDir ''ansys/mapdl/reader''))
       (\<lambda>_. case listdir E ''ansys/mapdl/reader'' of
               None \<Rightarrow> raise (OSError ''ansys/mapdl/reader'')
             | Some filenames \<Rightarrow>
                 (if \<not> scan_filenames False filenames
                  then (case import_stmt E ''cython'' of
                          (t, Inr u) \<Rightarrow> (t, Inr u)
                        | (t, Inl e) \<Rightarrow> (t, Inl (ImportError cython_message)))
                  else ret ()))"

subsection \<open>Lines 77 to 101: \<open>compilerName\<close>\<close>

definition is_lower :: "char \<Rightarrow> bool" where
  "is_lower c = (97 \<le> (of_char c :: nat) \<and> (of_char c :: nat) \<le> 122)"

definition not_newline :: "char \<Rightarrow> bool" where
  "not_newline c = (c \<noteq> CHR 0x0A)"

text \<open>
  The three regular expressions, each as the backtracking matcher that \<open>re.search\<close>
  runs on it. All three start with \<open>^\<close>, so a match can only start at the first
  character. \<open>[a-z]*\<close> is greedy: it takes one more lower-case letter when it can, and
  gives it back when the rest of the pattern then fails. \<open>.\<close> is any character but
  a newline, \<open>(.+)\<close> takes as many as there are, and \<open>$\<close> holds at the end of the
  string and just before a newline that ends it.
\<close>

text \<open>The tail \<open>c$\<close> of \<open>^-[a-z]*c$\<close>.\<close>

definition c_end :: "string \<Rightarrow> bool" where
  "c_end s = (s = ''c'' \<or> s = ''c\<newline>'')"

fun lower_star_c_end :: "string \<Rightarrow> bool" where
  "lower_star_c_end [] = c_end []"
| "lower_star_c_end (ch # t) =
     ((is_lower ch \<and> lower_star_c_end t) \<or> c_end (ch # t))"

definition re_short_flag :: "string \<Rightarrow> bool" where
  \<comment> \<open>\<open>re.search("^-[a-z]*c$", a)\<close> is not None\<close>
  "re_short_flag a = (case a of [] \<Rightarrow> False | h # s \<Rightarrow> h = CHR ''-'' \<and> lower_star_c_end s)"

text \<open>The tail \<open>c(.+)\<close> of \<open>^-[a-z]*c(.+)\<close>: the group, when the tail matches.\<close>

fun c_group :: "string \<Rightarrow> string option" where
  "c_group (ch # x # rest) =
     (if ch = CHR ''c'' \<and> not_newline x then Some (takeWhile not_newline (x # rest)) else None)"
| "c_group _ = None"

fun lower_star_c_group :: "string \<Rightarrow> string option" where
  "lower_star_c_group [] = c_group []"
| "lower_star_c_group (ch # t) =
     (if is_lower ch
      then (case lower_star_c_group t of Some g \<Rightarrow> Some g | None \<Rightarrow> c_group (ch # t))
      else c_group (ch # t))"

definition re_short_opt :: "string \<Rightarrow> string option" where
  \<comment> \<open>\<open>re.search("^-[a-z]*c(.+)", a)\<close>: None, or \<open>m.group(1)\<close>\<close>
  "re_short_opt a =
     (case a of [] \<Rightarrow> None | h # s \<Rightarrow> if h = CHR ''-'' then lower_star_c_group s else None)"

definition re_long_opt :: "string \<Rightarrow> string option" where
  \<comment> \<open>\<open>re.search("^--compiler=(.+)", a)\<close>: None, or \<open>m.group(1)\<close>\<close>
  "re_long_opt a =
     (if prefix ''--compiler='' a
      then (case takeWhile not_newline (drop 11 a) of [] \<Rightarrow> None | g # gs \<Rightarrow> Some (g # gs))
      else None)"

text \<open>
  The \<open>for\<close> loop of lines 85 to 99 over \<open>sys.argv[2:]\<close>, with its two variables.
  Lines 95 to 99 read
  \<^verbatim>\<open>
        m = re.search("^--compiler=(.+)", a)
        if m is None:
            m = re.search("^-[a-z]*c(.+)", a)
            if m:
                comp = m.group(1)
  \<close>
  so the assignment to \<open>comp\<close> (here \<open>comp'\<close>) is inside \<open>if m is None\<close>: it runs only for a match of
  the second expression.
\<close>

fun scan_argv :: "string \<Rightarrow> bool \<Rightarrow> string list \<Rightarrow> string" where
  "scan_argv comp' getnext [] = comp'"
| "scan_argv comp' getnext (a # rest) =
     (if getnext then scan_argv a False rest
      else if a = ''--compiler'' \<or> re_short_flag a then scan_argv comp' True rest
      else (case re_long_opt a of
              Some g \<Rightarrow> scan_argv comp' False rest
            | None \<Rightarrow>
                (case re_short_opt a of
                   Some g \<Rightarrow> scan_argv g False rest
                 | None \<Rightarrow> scan_argv comp' False rest)))"

definition compilerName :: "env \<Rightarrow> string run" where
  "compilerName E =
     and_then (import_stmt E ''distutils.ccompiler'')
       (\<lambda>_. ret (scan_argv (default_compiler E) False (drop 2 (argv E))))"

subsection \<open>Lines 104 to 109: the compile arguments\<close>

definition cmp_arg :: "string \<Rightarrow> string list" where
  "cmp_arg compiler = (if compiler = ''unix'' then [''-O3'', ''-w''] else [''/Ox'', ''-w''])"

subsection \<open>Lines 112 to 118: the version\<close>

text \<open>
  \<open>__version__\<close> starts as None; the version file, \<open>ansys/mapdl/reader/_version.py\<close>
  beside \<open>setup.py\<close>, is read and executed. What the executed text does is the
  environment's answer: it raises, or it leaves a value in \<open>__version__\<close> (and is
  taken to bind no other name of the script).
\<close>

definition read_version :: "env \<Rightarrow> string option run" where
  "read_version E =
     and_then (emit (ReadFile ''ansys/mapdl/reader/_version.py''))
       (\<lambda>_. case version_file E of
               None \<Rightarrow> raise (OSError ''ansys/mapdl/reader/_version.py'')
             | Some src \<Rightarrow>
                 and_then (emit (ExecSource src))
                   (\<lambda>_. case exec_version E src of
                           Inl err \<Rightarrow> raise (ForeignError err)
                         | Inr v \<Rightarrow> ret v))"

definition install_requires :: "string list" where
  "install_requires =
     [''numpy>=1.14.0'', ''pyvista>=0.30.1'', ''appdirs>=1.4.0'', ''matplotlib>=3.0.0'',
      ''tqdm>=4.45.0'']"

subsection \<open>Lines 128 to 139: the 64-bit guard\<close>

definition bits64_message :: "string \<Rightarrow> string" where
  "bits64_message exe =
     ''\<newline>\<newline>``ansys-mapdl-reader`` requires 64-bit Python due to vtk.\<newline>'' @
     ''Please check the version of Python installed at\<newline>'' @ exe"

definition check_64bit :: "env \<Rightarrow> unit run" where
  "check_64bit E =
     (if \<not> (calcsize_P E * 8 = 64)
      then (case import_stmt E ''vtk'' of
              (t, Inr u) \<Rightarrow> (t, Inr u)
            | (t, Inl e) \<Rightarrow> (t, Inl (RuntimeError (bits64_message (executable E)))))
      else ret ())"

subsection \<open>Lines 141 to 221: the call of \<open>setup\<close>\<close>

definition ext_modules :: "string list \<Rightarrow> extension list" where
  "ext_modules args =
     [\<lparr>ext_name = ''ansys.mapdl.reader._archive'',
       ext_sources = [''ansys/mapdl/reader/cython/_archive.pyx'',
                      ''ansys/mapdl/reader/cython/archive.c''],
       extra_compile_args = args, ext_language = ''c''\<rparr>,
      \<lparr>ext_name = ''ansys.mapdl.reader._reader'',
       ext_sources = [''ansys/mapdl/reader/cython/_reader.pyx'',
                      ''ansys/mapdl/reader/cython/reader.c'',
                      ''ansys/mapdl/reader/cython/vtk_support.c''],
       extra_compile_args = args, ext_language = ''c''\<rparr>,
      \<lparr>ext_name = ''ansys.mapdl.reader._relaxmidside'',
       ext_sources = [''ansys/mapdl/reader/cython/_relaxmidside.pyx''],
       extra_compile_args = args, ext_language = ''c''\<rparr>,
      \<lparr>ext_name = ''ansys.mapdl.reader._cellqual'',
       ext_sources = [''ansys/mapdl/reader/cython/_cellqual.pyx''],
       extra_compile_args = args, ext_language = ''c''\<rparr>,
      \<lparr>ext_name = ''ansys.mapdl.reader._binary_reader'',
       ext_sources = [''ansys/mapdl/reader/cython/_binary_reader.pyx'',
                      ''ansys/mapdl/reader/cython/binary_reader.cpp''],
       extra_compile_args = args, ext_language = ''c++''\<rparr>]"

definition setup_arguments :: "string option \<Rightarrow> string \<Rightarrow> string list \<Rightarrow> setup_kwargs" where
  "setup_arguments version long_description args =
     \<lparr>kw_name = ''pyansys-mapdl-reader'',
      kw_packages = [''pyansys.mapdl.reader'', ''pyansys.mapdl.reader.examples''],
      kw_version = version,
      kw_description = ''Pythonic interface to files generated by MAPDL'',
      kw_long_description = long_description,
      kw_long_description_content_type = ''text/x-rst'',
      kw_license = ''MIT'',
      kw_classifiers =
        [''Development Status :: 4 - Beta'',
         ''Intended Audience :: Science/Research'',
         ''Topic :: Scientific/Engineering :: Information Analysis'',
         ''License :: OSI Approved :: MIT License'',
         ''Operating System :: Microsoft :: Windows'',
         ''Operating System :: POSIX'',
         ''Operating System :: MacOS'',
         ''Programming Language :: Python :: 3.6'',
         ''Programming Language :: Python :: 3.7'',
         ''Programming Language :: Python :: 3.8'',
         ''Programming Language :: Python :: 3.9''],
      kw_url = ''https://github.com/Eomys/pymapdl-reader.git'',
      kw_cmdclass = [(''build_ext'', ''build_ext'')],
      kw_ext_modules = ext_modules args,
      kw_python_requires = ''>=3.6.*'',
      kw_keywords = ''vtk MAPDL ANSYS cdb full rst'',
      kw_package_data =
        [(''ansys.mapdl.reader.examples'',
          [''TetBeam.cdb'', ''HexBeam.cdb'', ''file.rst'', ''file.full'', ''sector.rst'',
           ''sector.cdb''])],
      kw_install_requires = install_requires\<rparr>"

definition call_setup :: "env \<Rightarrow> string option \<Rightarrow> string list \<Rightarrow> unit run" where
  "call_setup E version args =
     and_then (emit (ReadFile ''README.rst''))
       (\<lambda>_. case readme E of
               None \<Rightarrow> raise (OSError ''README.rst'')
             | Some text \<Rightarrow> emit (SetupCall (setup_arguments version text args)))"

subsection \<open>The script\<close>

text \<open>
  The statements of the file in their order. The class statement of lines 42 to 74
  only binds the name \<open>build_ext\<close>: its methods run inside \<open>setup\<close>, after the script's
  last statement has begun.
\<close>

definition script :: "env \<Rightarrow> unit run" where
  "script E =
     and_then (import_stmt E ''setuptools'')
       (\<lambda>_. and_then (import_stmt E ''setuptools.command.build_ext'')
         (\<lambda>_. and_then (ensure_numpy E)
           (\<lambda>_. and_then (check_cython E)
             (\<lambda>_. and_then (compilerName E)
               (\<lambda>compiler. and_then (read_version E)
                 (\<lambda>version. and_then (check_64bit E)
                   (\<lambda>_. call_setup E version (cmp_arg compiler))))))))"

subsection \<open>The text of the file\<close>

text \<open>
  The file itself, line by line as Python's \<open>readlines\<close> splits it, without the line
  terminators. The last line, the closing parenthesis of the call of \<open>setup\<close>, has no
  terminator in the file. A backslash of the file is written \<open>CHR 0x5C\<close>.
\<close>

definition setup_py :: "string list" where
  \<open>setup_py =
   [''"""Installation file for ansys-mapdl-reader"""'',
    ''import platform'',
    ''import re'',
    ''import subprocess'',
    ''import struct'',
    ''import os'',
    ''import sys'',
    ''from io import open as io_open'',
    '''',
    ''from setuptools import setup, Extension'',
    ''from setuptools.command.build_ext import build_ext as _build_ext'',
    '''',
    ''try:'',
    ''    import numpy as np'',
    ''except ImportError:'',
    ''    import pip'',
    '''',
    ''    pip.main(["install", "numpy>=1.14.0"])'',
    '''',
    '''',
    ''def check_cython():'',
    ''    """Check if binaries exist and if not check if Cython is installed"""'',
    ''    has_binary_reader = False'',
    ''    for filename in os.listdir("ansys/mapdl/reader"):'',
    ''        if "_binary_reader" in filename:'',
    ''            has_binary_reader = True'',
    '''',
    ''    if not has_binary_reader:'',
    ''        # ensure cython is installed before trying to build'',
    ''        try:'',
    ''            import cython'',
    ''        except ImportError:'',
    ''            raise ImportError('',
    (''                "'' @ [CHR 0x5C] @ ''n'' @ [CHR 0x5C] @ ''n'' @ [CHR 0x5C] @ ''nTo build pyansys please install Cython with:'' @ [CHR 0x5C] @ ''n'' @ [CHR 0x5C] @ ''n"''),
    (''                "pip install cython'' @ [CHR 0x5C] @ ''n'' @ [CHR 0x5C] @ ''n"''),
    ''            ) from None'',
    '''',
    '''',
    ''check_cython()'',
    '''',
    '''',
    ''class build_ext(_build_ext):'',
    ''    """build class that includes numpy directory"""'',
    '''',
    ''    def finalize_options(self):'',
    ''        _build_ext.finalize_options(self)'',
    ''        # Prevent numpy from thinking it is still in its setup process:'',
    ''        __builtins__.__NUMPY_SETUP__ = False'',
    ''        import numpy'',
    '''',
    ''        self.include_dirs.append(numpy.get_include())'',
    '''',
    ''    def build_extensions(self):'',
    ''        if os.name != "nt":'',
    ''            binary = self.compiler.compiler[0]'',
    ''            if is_clang(binary):'',
    ''                for e in self.extensions:'',
    ''                    e.extra_compile_args.append("-stdlib=libc++")'',
    '''',
    ''                    if platform.system() == "Darwin":'',
    ''                        mac_version, _, _ = platform.mac_ver()'',
    ''                        major, minor, patch = [int(n) for n in mac_version.split(".")]'',
    '''',
    ''                        # libstdc++ is deprecated in recent versions of XCode'',
    ''                        if minor >= 9:'',
    ''                            e.extra_compile_args.append("-mmacosx-version-min=10.9")'',
    ''                            e.extra_compile_args.append("-stdlib=libc++")'',
    ''                            e.extra_link_args.append("-mmacosx-version-min=10.9")'',
    ''                            e.extra_link_args.append("-stdlib=libc++")'',
    ''                        else:'',
    ''                            e.extra_compile_args.append("-mmacosx-version-min=10.7")'',
    ''                            e.extra_link_args.append("-mmacosx-version-min=10.7")'',
    '''',
    ''        _build_ext.build_extensions(self)'',
    '''',
    '''',
    ''def compilerName():'',
    ''    """Check compiler and assign compile arguments accordingly"""'',
    ''    import re'',
    ''    import distutils.ccompiler'',
    '''',
    ''    comp = distutils.ccompiler.get_default_compiler()'',
    ''    getnext = False'',
    '''',
    ''    for a in sys.argv[2:]:'',
    ''        if getnext:'',
    ''            comp = a'',
    ''            getnext = False'',
    ''            continue'',
    ''        # separated by space'',
    ''        if a == "--compiler" or re.search("^-[a-z]*c$", a):'',
    ''            getnext = True'',
    ''            continue'',
    ''        # without space'',
    ''        m = re.search("^--compiler=(.+)", a)'',
    ''        if m is None:'',
    ''            m = re.search("^-[a-z]*c(.+)", a)'',
    ''            if m:'',
    ''                comp = m.group(1)'',
    '''',
    ''    return comp'',
    '''',
    '''',
    ''# Assign arguments based on compiler'',
    ''compiler = compilerName()'',
    ''if compiler == "unix":'',
    ''    cmp_arg = ["-O3", "-w"]'',
    ''else:'',
    ''    cmp_arg = ["/Ox", "-w"]'',
    '''',
    '''',
    ''# Get version from version info'',
    ''__version__ = None'',
    ''this_file = os.path.dirname(__file__)'',
    ''version_file = os.path.join(this_file, "ansys", "mapdl", "reader", "_version.py")'',
    ''with io_open(version_file, mode="r") as fd:'',
    ''    # execute file from raw string'',
    ''    exec(fd.read())'',
    '''',
    ''install_requires = ['',
    ''    "numpy>=1.14.0",'',
    ''    "pyvista>=0.30.1",'',
    ''    "appdirs>=1.4.0",'',
    ''    "matplotlib>=3.0.0",'',
    ''    "tqdm>=4.45.0",'',
    '']'',
    '''',
    ''# perform python version checking'',
    ''# this is necessary to avoid the new pip package checking as vtk does'',
    ''# not support Python 32-bit as of 17 June 2021.'',
    ''if not struct.calcsize("P") * 8 == 64:'',
    ''    try:'',
    ''        import vtk'',
    ''    except ImportError:'',
    ''        raise RuntimeError('',
    (''            "'' @ [CHR 0x5C] @ ''n'' @ [CHR 0x5C] @ ''n``ansys-mapdl-reader`` requires 64-bit Python due to vtk.'' @ [CHR 0x5C] @ ''n"''),
    (''            "Please check the version of Python installed at'' @ [CHR 0x5C] @ ''n"''),
    ''            "%s" % sys.executable'',
    ''        )'',
    '''',
    ''# Actual setup'',
    ''setup('',
    ''    name="pyansys-mapdl-reader",'',
    ''    packages=["pyansys.mapdl.reader", "pyansys.mapdl.reader.examples"],'',
    ''    version=__version__,'',
    ''    description="Pythonic interface to files generated by MAPDL",'',
    ''    long_description=open("README.rst").read(),'',
    ''    long_description_content_type="text/x-rst",'',
    ''    license="MIT",'',
    ''    classifiers=['',
    ''        "Development Status :: 4 - Beta",'',
    ''        "Intended Audience :: Science/Research",'',
    ''        "Topic :: Scientific/Engineering :: Information Analysis",'',
    ''        "License :: OSI Approved :: MIT License",'',
    ''        "Operating System :: Microsoft :: Windows",'',
    ''        "Operating System :: POSIX",'',
    ''        "Operating System :: MacOS",'',
    ''        "Programming Language :: Python :: 3.6",'',
    ''        "Programming Language :: Python :: 3.7",'',
    ''        "Programming Language :: Python :: 3.8",'',
    ''        "Programming Language :: Python :: 3.9",'',
    ''    ],'',
    ''    url="https://github.com/Eomys/pymapdl-reader.git",'',
    ''    # Build cython modules'',
    ''    cmdclass={"build_ext": build_ext},'',
    ''    ext_modules=['',
    ''        Extension('',
    ''            "ansys.mapdl.reader._archive",'',
    ''            ['',
    ''                "ansys/mapdl/reader/cython/_archive.pyx",'',
    ''                "ansys/mapdl/reader/cython/archive.c",'',
    ''            ],'',
    ''            extra_compile_args=cmp_arg,'',
    ''            language="c",'',
    ''        ),'',
    ''        Extension('',
    ''            "ansys.mapdl.reader._reader",'',
    ''            ['',
    ''                "ansys/mapdl/reader/cython/_reader.pyx",'',
    ''                "ansys/mapdl/reader/cython/reader.c",'',
    ''                "ansys/mapdl/reader/cython/vtk_support.c",'',
    ''            ],'',
    ''            extra_compile_args=cmp_arg,'',
    ''            language="c",'',
    ''        ),'',
    ''        Extension('',
    ''            "ansys.mapdl.reader._relaxmidside",'',
    ''            ["ansys/mapdl/reader/cython/_relaxmidside.pyx"],'',
    ''            extra_compile_args=cmp_arg,'',
    ''            language="c",'',
    ''        ),'',
    ''        Extension('',
    ''            "ansys.mapdl.reader._cellqual",'',
    ''            ["ansys/mapdl/reader/cython/_cellqual.pyx"],'',
    ''            extra_compile_args=cmp_arg,'',
    ''            language="c",'',
    ''        ),'',
    ''        Extension('',
    ''            "ansys.mapdl.reader._binary_reader",'',
    ''            ['',
    ''                "ansys/mapdl/reader/cython/_binary_reader.pyx",'',
    ''                "ansys/mapdl/reader/cython/binary_reader.cpp",'',
    ''            ],'',
    ''            extra_compile_args=cmp_arg,'',
    ''            language="c++",'',
    ''        ),'',
    ''    ],'',
    ''    python_requires=">=3.6.*",'',
    ''    keywords="vtk MAPDL ANSYS cdb full rst",'',
    ''    package_data={'',
    ''        "ansys.mapdl.reader.examples": ['',
    ''            "TetBeam.cdb",'',
    ''            "HexBeam.cdb",'',
    ''            "file.rst",'',
    ''            "file.full",'',
    ''            "sector.rst",'',
    ''            "sector.cdb",'',
    ''        ]'',
    ''    },'',
    ''    install_requires=install_requires,'',
    '')'']\<close>

subsection \<open>Environments\<close>

text \<open>
  A 64-bit Linux machine with the package's binaries already built, without Cython and
  without vtk.
\<close>

definition env_prebuilt :: env where
  "env_prebuilt =
     \<lparr>importable = (\<lambda>m. m = ''setuptools'' \<or> m = ''setuptools.command.build_ext'' \<or>
                        m = ''numpy'' \<or> m = ''distutils.ccompiler''),
      pip_main = (\<lambda>args. None),
      listdir = (\<lambda>path. if path = ''ansys/mapdl/reader''
                         then Some [''__init__.py'', ''_binary_reader.cpython-39-x86_64-linux-gnu.so'']
                         else None),
      argv = [''setup.py'', ''install''],
      default_compiler = ''unix'',
      version_file = Some ''version_info = 0, 51, 0'',
      exec_version = (\<lambda>src. Inr (Some ''0.51.0'')),
      calcsize_P = 8,
      executable = ''/usr/bin/python3'',
      readme = Some ''pymapdl-reader''\<rparr>"

text \<open>The same machine with a fresh checkout: no binaries in the package directory.\<close>

definition env_fresh :: env where
  "env_fresh =
     env_prebuilt\<lparr>listdir := (\<lambda>path. if path = ''ansys/mapdl/reader''
                                      then Some [''__init__.py'', ''cython'']
                                      else None)\<rparr>"

text \<open>The same machine with a 32-bit interpreter.\<close>

definition env_32bit :: env where
  "env_32bit = env_prebuilt\<lparr>calcsize_P := 4\<rparr>"

text \<open>
  A machine whose default compiler is \<open>msvc\<close>, asked for the unix compiler with
  \<^verbatim>\<open>python setup.py build_ext --compiler=unix\<close>.
\<close>

definition env_cross :: env where
  "env_cross =
     env_prebuilt\<lparr>argv := [''setup.py'', ''build_ext'', ''--compiler=unix''],
                  default_compiler := ''msvc''\<rparr>"

section \<open>The decoding core, from the specification\<close>

text \<open>
  \<open>setup.py\<close> names the five compiled modules of the decoding core and their sources
  (\<open>_binary_reader.pyx\<close>, \<open>binary_reader.cpp\<close>, ...), but those sources are not under
  \<open>src/\<close>. The two components below are modelled from the specification's words:
  the Binary Cursor of its section 4.1 and the Mesh Assembler of its section 4.5.
\<close>

subsection \<open>Binary Cursor\<close>

type_synonym byte = "8 word"

text \<open>
  Modelled from the spec: the error of the missing Binary Cursor's reads, the
  \<open>OutOfBounds\<close> of the spec's error taxonomy.
\<close>

datatype cursor_error = OutOfBounds

text \<open>
  Modelled from the spec: the byte order of a file-format version, which the missing
  Binary Cursor applies to every number it reads.
\<close>

datatype endianness = LittleEndian | BigEndian

text \<open>
  Modelled from the spec: the Binary Cursor's state (the reader of \<open>_binary_reader\<close> is
  missing from \<open>src/\<close>). A fixed byte buffer, a read position, and the byte order,
  which is fixed per file-format version.
\<close>

record cursor =
  buffer :: "byte list"
  position :: nat
  byte_order :: endianness

text \<open>
  Modelled from the spec: \<open>remaining()\<close> of the missing Binary Cursor, the bytes from
  the position to the end of the buffer (none when the position is past the end).
\<close>

definition remaining :: "cursor \<Rightarrow> nat" where
  "remaining c = length (buffer c) - position c"

text \<open>
  Modelled from the spec: \<open>read_bytes(n)\<close> of the missing Binary Cursor. A read whose
  width exceeds what remains fails with \<open>OutOfBounds\<close> and leaves the cursor as it
  was; otherwise it returns exactly \<open>n\<close> bytes and moves the position past them.
\<close>

definition read_bytes :: "nat \<Rightarrow> cursor \<Rightarrow> (cursor_error + byte list) \<times> cursor" where
  "read_bytes n c =
     (if n > remaining c then (Inl OutOfBounds, c)
      else (Inr (take n (drop (position c) (buffer c))), c\<lparr>position := position c + n\<rparr>))"

text \<open>
  Modelled from the spec: the byte order applied to the bytes of a number (the spec
  says that endianness is applied uniformly, the code that does it is missing).
  The least significant byte is first in little-endian order, last in big-endian.
\<close>

fun le_word :: "byte list \<Rightarrow> 'a::len word" where
  "le_word [] = 0"
| "le_word (b # bs) = ucast b OR push_bit 8 (le_word bs)"

definition word_of_bytes :: "endianness \<Rightarrow> byte list \<Rightarrow> 'a::len word" where
  "word_of_bytes order bs =
     (case order of LittleEndian \<Rightarrow> le_word bs | BigEndian \<Rightarrow> le_word (rev bs))"

text \<open>
  Modelled from the spec: a fixed-width read of the missing Binary Cursor, the shared
  body of \<open>read_i32\<close>, \<open>read_i64\<close>, \<open>read_f32\<close> and \<open>read_f64\<close>: read \<open>width\<close> bytes,
  fail as \<open>read_bytes\<close> fails, decode in the cursor's byte order.
\<close>

definition read_word :: "nat \<Rightarrow> cursor \<Rightarrow> (cursor_error + 'a::len word) \<times> cursor" where
  "read_word width c =
     (case read_bytes width c of
        (Inl err, c') \<Rightarrow> (Inl err, c')
      | (Inr bs, c') \<Rightarrow> (Inr (word_of_bytes (byte_order c) bs), c'))"

text \<open>
  Modelled from the spec: \<open>read_i32\<close> and \<open>read_i64\<close> of the missing Binary Cursor,
  signed integers of 4 and 8 bytes.
\<close>

definition read_i32 :: "cursor \<Rightarrow> (cursor_error + int) \<times> cursor" where
  "read_i32 c = map_prod (map_sum id (\<lambda>w :: 32 word. sint w)) id (read_word 4 c)"

definition read_i64 :: "cursor \<Rightarrow> (cursor_error + int) \<times> cursor" where
  "read_i64 c = map_prod (map_sum id (\<lambda>w :: 64 word. sint w)) id (read_word 8 c)"

text \<open>
  Modelled from the spec: \<open>read_f32\<close> and \<open>read_f64\<close> of the missing Binary Cursor.
  A float is returned as its 4 or 8 bytes' bit pattern; its numeric value is not
  modelled.
\<close>

definition read_f32 :: "cursor \<Rightarrow> (cursor_error + 32 word) \<times> cursor" where
  "read_f32 c = read_word 4 c"

definition read_f64 :: "cursor \<Rightarrow> (cursor_error + 64 word) \<times> cursor" where
  "read_f64 c = read_word 8 c"

text \<open>A cursor three bytes into a buffer of five.\<close>

definition cursor_near_end :: cursor where
  "cursor_near_end =
     \<lparr>buffer = [0x01, 0x02, 0x03, 0x04, 0x05], position = 3, byte_order = LittleEndian\<rparr>"

subsection \<open>Mesh Assembler\<close>

text \<open>
  Modelled from the spec: the Node Table's entries (the archive reader that builds
  them is missing from \<open>src/\<close>). A node id and three float64 coordinates, each kept as
  its bit pattern.
\<close>

record node =
  node_id :: int
  node_x :: "64 word"
  node_y :: "64 word"
  node_z :: "64 word"

text \<open>
  Modelled from the spec: the Element Table's entries. The element type is the
  enumeration's tag as a number, since the spec does not list the enumeration.
\<close>

record element =
  element_id :: int
  element_type :: nat
  element_nodes :: "int list"
  attribute_ids :: "int list"

text \<open>
  Modelled from the spec: the two kinds of ids a Field Result of the missing result
  parser can be keyed by, node ids or element ids.
\<close>

datatype id_domain = NodeIds | ElementIds

text \<open>
  Modelled from the spec: a Field Result, a mapping from node ids or element ids to
  numeric vectors, tagged with its result kind and its load step.
\<close>

record field_result =
  result_kind :: nat
  load_step :: nat
  result_domain :: id_domain
  result_values :: "(int \<times> 64 word list) list"

text \<open>
  Modelled from the spec: the Mesh, which owns one Node Table, one Element Table and
  its Field Results, with the two lookup structures from an id to its local position
  that the assembler produces.
\<close>

record mesh =
  mesh_nodes :: "node list"
  mesh_elements :: "element list"
  mesh_results :: "field_result list"
  node_index :: "int \<rightharpoonup> nat"
  element_index :: "int \<rightharpoonup> nat"

text \<open>
  Modelled from the spec: the errors of the missing \<open>assemble\<close>. The spec names
  \<open>DanglingNodeReference\<close> for an element's reference to a node that is not in the
  Node Table; it gives no name to a Field Result id that is not in its table, which
  is \<open>FieldIdNotInTable\<close> here.
\<close>

datatype assembly_error = DanglingNodeReference int | FieldIdNotInTable int

text \<open>
  Modelled from the spec: the ids a Field Result is checked against, those of the
  table of its domain.
\<close>

definition table_ids :: "node list \<Rightarrow> element list \<Rightarrow> id_domain \<Rightarrow> int list" where
  "table_ids nodes elements d =
     (case d of NodeIds \<Rightarrow> map node_id nodes | ElementIds \<Rightarrow> map element_id elements)"

text \<open>
  Modelled from the spec: the first id of a Field Result that its table does not
  hold, over all results in their order.
\<close>

fun first_foreign_id :: "node list \<Rightarrow> element list \<Rightarrow> field_result list \<Rightarrow> int option" where
  "first_foreign_id nodes elements [] = None"
| "first_foreign_id nodes elements (r # rs) =
     (case find (\<lambda>i. i \<notin> set (table_ids nodes elements (result_domain r)))
             (map fst (result_values r)) of
        Some i \<Rightarrow> Some i
      | None \<Rightarrow> first_foreign_id nodes elements rs)"

text \<open>
  Modelled from the spec: the lookup structure from an id to its position in a table.
\<close>

definition index_of_ids :: "int list \<Rightarrow> (int \<rightharpoonup> nat)" where
  "index_of_ids ids = map_of (zip ids [0 ..< length ids])"

text \<open>
  Modelled from the spec: \<open>assemble(nodes, elements, results?)\<close> of the missing Mesh
  Assembler. Every node reference of every element is checked against the Node
  Table, in the elements' order, and the first one that is missing is reported;
  then every Field Result's ids are checked against their table; then the Mesh is
  built with its two lookup structures. No Field Results is the empty list.
\<close>

definition assemble ::
  "node list \<Rightarrow> element list \<Rightarrow> field_result list \<Rightarrow> assembly_error + mesh" where
  "assemble nodes elements results =
     (case find (\<lambda>r. r \<notin> set (map node_id nodes)) (concat (map element_nodes elements)) of
        Some r \<Rightarrow> Inl (DanglingNodeReference r)
      | None \<Rightarrow>
          (case first_foreign_id nodes elements results of
             Some i \<Rightarrow> Inl (FieldIdNotInTable i)
           | None \<Rightarrow>
               Inr \<lparr>mesh_nodes = nodes,
                    mesh_elements = elements,
                    mesh_results = results,
                    node_index = index_of_ids (map node_id nodes),
                    element_index = index_of_ids (map element_id elements)\<rparr>))"

text \<open>
  Modelled from the spec: the counts re-derived from a Mesh, the lengths of the two
  tables it owns.
\<close>

definition node_count :: "mesh \<Rightarrow> nat" where
  "node_count m = length (mesh_nodes m)"

definition element_count :: "mesh \<Rightarrow> nat" where
  "element_count m = length (mesh_elements m)"

text \<open>A triangle on three nodes, and the same triangle with a reference to node 999.\<close>

definition three_nodes :: "node list" where
  "three_nodes =
     [\<lparr>node_id = 1, node_x = 0, node_y = 0, node_z = 0\<rparr>,
      \<lparr>node_id = 2, node_x = 0x3FF0000000000000, node_y = 0, node_z = 0\<rparr>,
      \<lparr>node_id = 5, node_x = 0, node_y = 0x3FF0000000000000, node_z = 0\<rparr>]"

definition one_triangle :: "element list" where
  "one_triangle =
     [\<lparr>element_id = 10, element_type = 3, element_nodes = [1, 2, 5], attribute_ids = [1, 1]\<rparr>]"

definition dangling_triangle :: "element list" where
  "dangling_triangle =
     [\<lparr>element_id = 10, element_type = 3, element_nodes = [1, 999, 5], attribute_ids = [1, 1]\<rparr>]"

section \<open>Properties of the build script\<close>

subsection \<open>Runs\<close>

lemma str_contains_sublist: "str_contains sub s \<longleftrightarrow> sublist sub s"
  by (induction s) (simp_all add: sublist_Cons_right)

lemma scan_filenames_iff:
  "scan_filenames h fs \<longleftrightarrow> h \<or> (\<exists>f \<in> set fs. str_contains ''_binary_reader'' f)"
  by (induction fs arbitrary: h) auto

lemma snd_and_then:
  "snd (and_then m f) = (case snd m of Inl e \<Rightarrow> Inl e | Inr x \<Rightarrow> snd (f x))"
  by (cases m) (auto simp: and_then_def split: sum.splits prod.splits)

lemma fst_and_then:
  "fst (and_then m f) = (case snd m of Inl e \<Rightarrow> fst m | Inr x \<Rightarrow> fst m @ fst (f x))"
  by (cases m) (auto simp: and_then_def split: sum.splits prod.splits)

lemma import_stmt_eq:
  "import_stmt E m =
     ([ImportStmt m], if importable E m then Inr () else Inl (ModuleNotFoundError m))"
  by (simp add: import_stmt_def and_then_def emit_def ret_def raise_def)

lemma ensure_numpy_trace:
  "set (fst (ensure_numpy E)) \<subseteq>
     {ImportStmt ''numpy'', ImportStmt ''pip'', PipMain [''install'', ''numpy>=1.14.0'']}"
  by (auto simp: ensure_numpy_def import_stmt_eq and_then_def emit_def ret_def raise_def
      split: option.splits)

lemma ensure_numpy_error:
  "snd (ensure_numpy E) \<noteq> Inl (RuntimeError msg)"
  by (auto simp: ensure_numpy_def import_stmt_eq and_then_def emit_def ret_def raise_def
      split: option.splits)

lemma check_cython_trace:
  "set (fst (check_cython E)) \<subseteq> {ListDir ''ansys/mapdl/reader'', ImportStmt ''cython''}"
  by (auto simp: check_cython_def import_stmt_eq and_then_def emit_def ret_def raise_def
      split: option.splits)

lemma check_cython_error:
  "snd (check_cython E) \<noteq> Inl (RuntimeError msg)"
  by (auto simp: check_cython_def import_stmt_eq and_then_def emit_def ret_def raise_def
      split: option.splits)

lemma compilerName_eq:
  "compilerName E =
     ([ImportStmt ''distutils.ccompiler''],
      if importable E ''distutils.ccompiler''
      then Inr (scan_argv (default_compiler E) False (drop 2 (argv E)))
      else Inl (ModuleNotFoundError ''distutils.ccompiler''))"
  by (simp add: compilerName_def import_stmt_eq and_then_def ret_def)

lemma read_version_trace:
  "set (fst (read_version E)) \<subseteq> {ReadFile ''ansys/mapdl/reader/_version.py''} \<union> range ExecSource"
  by (auto simp: read_version_def and_then_def emit_def ret_def raise_def
      split: option.splits sum.splits)

lemma read_version_error:
  "snd (read_version E) \<noteq> Inl (RuntimeError msg)"
  by (auto simp: read_version_def and_then_def emit_def ret_def raise_def
      split: option.splits sum.splits)

lemma check_64bit_eq:
  "check_64bit E =
     (if calcsize_P E * 8 = 64 then ([], Inr ())
      else ([ImportStmt ''vtk''],
            if importable E ''vtk'' then Inr ()
            else Inl (RuntimeError (bits64_message (executable E)))))"
  by (simp add: check_64bit_def import_stmt_eq ret_def)

lemma call_setup_eq:
  "call_setup E version args =
     (case readme E of
        None \<Rightarrow> ([ReadFile ''README.rst''], Inl (OSError ''README.rst''))
      | Some text \<Rightarrow>
          ([ReadFile ''README.rst'', SetupCall (setup_arguments version text args)], Inr ()))"
  by (simp add: call_setup_def and_then_def emit_def raise_def split: option.splits)

lemma script_stops_at_check_cython:
  assumes "snd (check_cython E) = Inl e"
  shows "(\<exists>e'. snd (script E) = Inl e') \<and> (\<forall>kw. SetupCall kw \<notin> set (fst (script E)))"
  using assms ensure_numpy_trace[of E] check_cython_trace[of E]
  by (auto simp: script_def snd_and_then fst_and_then import_stmt_eq split: sum.splits)

lemma script_raises_check_cython:
  assumes "snd (check_cython E) = Inl e" "importable E ''setuptools''"
    "importable E ''setuptools.command.build_ext''" "snd (ensure_numpy E) = Inr ()"
  shows "snd (script E) = Inl e"
  using assms by (simp add: script_def snd_and_then import_stmt_eq)

lemma script_no_vtk_on_64:
  assumes "calcsize_P E * 8 = 64"
  shows "ImportStmt ''vtk'' \<notin> set (fst (script E))"
  using assms ensure_numpy_trace[of E] check_cython_trace[of E] read_version_trace[of E]
  by (auto simp: script_def fst_and_then import_stmt_eq compilerName_eq check_64bit_eq
      call_setup_eq split: sum.splits option.splits if_splits)

lemma script_runtime_error:
  assumes "snd (script E) = Inl (RuntimeError msg)"
  shows "calcsize_P E * 8 \<noteq> 64 \<and> \<not> importable E ''vtk'' \<and> msg = bits64_message (executable E)"
  using assms ensure_numpy_error[of E] check_cython_error[of E] read_version_error[of E]
  by (auto simp: script_def snd_and_then import_stmt_eq compilerName_eq check_64bit_eq
      call_setup_eq split: sum.splits option.splits if_splits)

subsection \<open>The file and its extension modules\<close>

lemma ext_modules_args: "e \<in> set (ext_modules args) \<Longrightarrow> extra_compile_args e = args"
  by (auto simp: ext_modules_def)

lemma script_setup_call_form:
  assumes "SetupCall kw \<in> set (fst (script E))"
  shows "\<exists>version long_description.
           kw = setup_arguments version long_description
                  (cmp_arg (scan_argv (default_compiler E) False (drop 2 (argv E))))"
  using assms ensure_numpy_trace [of E] check_cython_trace [of E] read_version_trace [of E]
  by (auto simp: script_def fst_and_then import_stmt_eq compilerName_eq check_64bit_eq
      call_setup_eq split: sum.splits option.splits if_splits)

lemma script_completes_with_setup:
  assumes "snd (script E) = Inr ()"
  shows "\<exists>kw. SetupCall kw \<in> set (fst (script E))"
  using assms
  by (auto simp: script_def fst_and_then snd_and_then import_stmt_eq compilerName_eq
      check_64bit_eq call_setup_eq split: sum.splits option.splits if_splits)

lemma setup_arguments_extension_names:
  "map ext_name (kw_ext_modules (setup_arguments version long_description args)) =
     [''ansys.mapdl.reader._archive'', ''ansys.mapdl.reader._reader'',
      ''ansys.mapdl.reader._relaxmidside'', ''ansys.mapdl.reader._cellqual'',
      ''ansys.mapdl.reader._binary_reader'']"
  by (simp add: setup_arguments_def ext_modules_def)

text \<open>
  Claim C1. The file \<open>setup.py\<close> has exactly 221 lines, and the script registers
  exactly five extension modules: a run of the script that completes has called
  \<open>setup\<close>, and every call of \<open>setup\<close> in a run passes five extension modules with
  the five distinct names \<open>ansys.mapdl.reader._archive\<close>, \<open>._reader\<close>,
  \<open>._relaxmidside\<close>, \<open>._cellqual\<close> and \<open>._binary_reader\<close>, in this order, whatever
  the environment is.
\<close>

theorem setup_py_registers_five_extensions:
  "length setup_py = 221 \<and>
   (snd (script E) = Inr () \<longrightarrow> (\<exists>kw. SetupCall kw \<in> set (fst (script E)))) \<and>
   (SetupCall kw \<in> set (fst (script E)) \<longrightarrow>
      map ext_name (kw_ext_modules kw) =
        [''ansys.mapdl.reader._archive'', ''ansys.mapdl.reader._reader'',
         ''ansys.mapdl.reader._relaxmidside'', ''ansys.mapdl.reader._cellqual'',
         ''ansys.mapdl.reader._binary_reader''] \<and>
      distinct (map ext_name (kw_ext_modules kw)) \<and>
      length (kw_ext_modules kw) = 5)"
proof (intro conjI impI)
  show "length setup_py = 221"
    by (simp add: setup_py_def)
next
  assume "snd (script E) = Inr ()"
  then show "\<exists>kw. SetupCall kw \<in> set (fst (script E))"
    by (rule script_completes_with_setup)
next
  assume "SetupCall kw \<in> set (fst (script E))"
  then obtain version long_description args
    where kw: "kw = setup_arguments version long_description args"
    using script_setup_call_form by blast
  show names: "map ext_name (kw_ext_modules kw) =
        [''ansys.mapdl.reader._archive'', ''ansys.mapdl.reader._reader'',
         ''ansys.mapdl.reader._relaxmidside'', ''ansys.mapdl.reader._cellqual'',
         ''ansys.mapdl.reader._binary_reader'']"
    unfolding kw by (rule setup_arguments_extension_names)
  show "distinct (map ext_name (kw_ext_modules kw))"
    unfolding names by simp
  from names have "length (map ext_name (kw_ext_modules kw)) = 5"
    by simp
  then show "length (kw_ext_modules kw) = 5"
    by simp
qed

theorem setup_py_registers_five_extensions_witness:
  "snd (script env_prebuilt) = Inr () \<and>
   SetupCall (setup_arguments (Some ''0.51.0'') ''pymapdl-reader'' [''-O3'', ''-w''])
     \<in> set (fst (script env_prebuilt)) \<and>
   map ext_name
     (kw_ext_modules (setup_arguments (Some ''0.51.0'') ''pymapdl-reader'' [''-O3'', ''-w''])) =
     [''ansys.mapdl.reader._archive'', ''ansys.mapdl.reader._reader'',
      ''ansys.mapdl.reader._relaxmidside'', ''ansys.mapdl.reader._cellqual'',
      ''ansys.mapdl.reader._binary_reader''] \<and>
   length (kw_ext_modules
     (setup_arguments (Some ''0.51.0'') ''pymapdl-reader'' [''-O3'', ''-w''])) = 5"
proof -
  have run: "script env_prebuilt =
      ([ImportStmt ''setuptools'', ImportStmt ''setuptools.command.build_ext'',
        ImportStmt ''numpy'', ListDir ''ansys/mapdl/reader'',
        ImportStmt ''distutils.ccompiler'', ReadFile ''ansys/mapdl/reader/_version.py'',
        ExecSource ''version_info = 0, 51, 0'', ReadFile ''README.rst'',
        SetupCall (setup_arguments (Some ''0.51.0'') ''pymapdl-reader'' [''-O3'', ''-w''])],
       Inr ())"
    by (simp add: script_def import_stmt_eq ensure_numpy_def check_cython_def
        and_then_def emit_def ret_def compilerName_eq read_version_def check_64bit_eq
        call_setup_eq cmp_arg_def env_prebuilt_def)
  have finished: "snd (script env_prebuilt) = Inr ()"
    by (simp add: run)
  have called: "SetupCall (setup_arguments (Some ''0.51.0'') ''pymapdl-reader'' [''-O3'', ''-w''])
      \<in> set (fst (script env_prebuilt))"
    by (simp add: run)
  from setup_py_registers_five_extensions
         [of env_prebuilt
             "setup_arguments (Some ''0.51.0'') ''pymapdl-reader'' [''-O3'', ''-w'']"]
       finished called
  show ?thesis by blast
qed

subsection \<open>\<open>check_cython\<close>\<close>

text \<open>
  Claim C8. Let the directory \<open>ansys/mapdl/reader\<close> be listed. When one of its file
  names contains \<open>_binary_reader\<close>, \<open>check_cython\<close> returns normally after the
  listing alone: it does not import Cython. When none does and \<open>cython\<close> cannot be
  imported, \<open>check_cython\<close> raises the ImportError with its message; then the script
  ends with an exception and never calls \<open>setup\<close>, and the exception is this
  ImportError when the statements before \<open>check_cython()\<close> have passed.
\<close>

theorem check_cython_binaries_or_cython:
  assumes "listdir E ''ansys/mapdl/reader'' = Some filenames"
  shows "((\<exists>f \<in> set filenames. str_contains ''_binary_reader'' f) \<longrightarrow>
            check_cython E = ([ListDir ''ansys/mapdl/reader''], Inr ())) \<and>
         ((\<forall>f \<in> set filenames. \<not> str_contains ''_binary_reader'' f) \<and>
          \<not> importable E ''cython'' \<longrightarrow>
            snd (check_cython E) = Inl (ImportError cython_message) \<and>
            (\<exists>e. snd (script E) = Inl e) \<and>
            (\<forall>kw. SetupCall kw \<notin> set (fst (script E))) \<and>
            (importable E ''setuptools'' \<and> importable E ''setuptools.command.build_ext'' \<and>
             snd (ensure_numpy E) = Inr () \<longrightarrow>
               snd (script E) = Inl (ImportError cython_message)))"
proof (intro conjI impI)
  assume "\<exists>f \<in> set filenames. str_contains ''_binary_reader'' f"
  with assms show "check_cython E = ([ListDir ''ansys/mapdl/reader''], Inr ())"
    by (simp add: check_cython_def and_then_def emit_def ret_def scan_filenames_iff)
next
  assume a: "(\<forall>f \<in> set filenames. \<not> str_contains ''_binary_reader'' f) \<and>
             \<not> importable E ''cython''"
  with assms show r: "snd (check_cython E) = Inl (ImportError cython_message)"
    by (simp add: check_cython_def and_then_def emit_def scan_filenames_iff import_stmt_eq)
  from script_stops_at_check_cython [OF r]
  show "\<exists>e. snd (script E) = Inl e" and "\<forall>kw. SetupCall kw \<notin> set (fst (script E))"
    by blast+
  assume "importable E ''setuptools'' \<and> importable E ''setuptools.command.build_ext'' \<and>
          snd (ensure_numpy E) = Inr ()"
  with r show "snd (script E) = Inl (ImportError cython_message)"
    by (simp add: script_raises_check_cython)
qed

theorem check_cython_binaries_or_cython_witness:
  "check_cython env_prebuilt = ([ListDir ''ansys/mapdl/reader''], Inr ()) \<and>
   \<not> importable env_prebuilt ''cython'' \<and>
   snd (check_cython env_fresh) = Inl (ImportError cython_message) \<and>
   snd (script env_fresh) = Inl (ImportError cython_message) \<and>
   (\<forall>kw. SetupCall kw \<notin> set (fst (script env_fresh)))"
proof -
  have l1: "listdir env_prebuilt ''ansys/mapdl/reader'' =
              Some [''__init__.py'', ''_binary_reader.cpython-39-x86_64-linux-gnu.so'']"
    by (simp add: env_prebuilt_def)
  have f1: "\<exists>f \<in> set [''__init__.py'', ''_binary_reader.cpython-39-x86_64-linux-gnu.so''].
              str_contains ''_binary_reader'' f"
    by simp
  have l2: "listdir env_fresh ''ansys/mapdl/reader'' = Some [''__init__.py'', ''cython'']"
    by (simp add: env_fresh_def env_prebuilt_def)
  have f2: "(\<forall>f \<in> set [''__init__.py'', ''cython'']. \<not> str_contains ''_binary_reader'' f) \<and>
            \<not> importable env_fresh ''cython''"
    by (simp add: env_fresh_def env_prebuilt_def)
  have f3: "importable env_fresh ''setuptools'' \<and>
            importable env_fresh ''setuptools.command.build_ext'' \<and>
            snd (ensure_numpy env_fresh) = Inr ()"
    by (simp add: env_fresh_def env_prebuilt_def ensure_numpy_def import_stmt_eq)
  have n: "\<not> importable env_prebuilt ''cython''"
    by (simp add: env_prebuilt_def)
  from check_cython_binaries_or_cython [OF l1] check_cython_binaries_or_cython [OF l2]
    f1 f2 f3 n
  show ?thesis by blast
qed

subsection \<open>\<open>compilerName\<close> and the compile arguments\<close>

lemma long_form_no_short_flag: "\<not> re_short_flag (''--compiler='' @ x)"
  by (simp add: re_short_flag_def is_lower_def c_end_def)

lemma long_form_no_short_opt: "re_short_opt (''--compiler='' @ x) = None"
  by (simp add: re_short_opt_def is_lower_def)

lemma scan_argv_long_form:
  "scan_argv c False ((''--compiler='' @ x) # rest) = scan_argv c False rest"
proof -
  define a where "a = ''--compiler='' @ x"
  have "a \<noteq> ''--compiler''"
    by (simp add: a_def)
  moreover have "\<not> re_short_flag a"
    unfolding a_def by (rule long_form_no_short_flag)
  moreover have "re_short_opt a = None"
    unfolding a_def by (rule long_form_no_short_opt)
  ultimately have "scan_argv c False (a # rest) = scan_argv c False rest"
    by (simp split: option.splits)
  then show ?thesis
    by (simp only: a_def)
qed

text \<open>
  Whatever \<open>compilerName\<close> returns, every extension of the call of \<open>setup\<close> gets the
  compile arguments chosen for it in lines 106 to 109.
\<close>

lemma setup_call_compile_args:
  assumes "SetupCall kw \<in> set (fst (script E))" and "e \<in> set (kw_ext_modules kw)"
  shows "extra_compile_args e = cmp_arg (scan_argv (default_compiler E) False (drop 2 (argv E)))"
proof -
  from assms(1) ensure_numpy_trace [of E] check_cython_trace [of E] read_version_trace [of E]
  obtain version long_description where
    "kw = setup_arguments version long_description
            (cmp_arg (scan_argv (default_compiler E) False (drop 2 (argv E))))"
    by (auto simp: script_def fst_and_then import_stmt_eq compilerName_eq check_64bit_eq
        call_setup_eq split: sum.splits option.splits if_splits)
  with assms(2) show ?thesis
    by (simp add: setup_arguments_def ext_modules_args)
qed

text \<open>
  Claim C9, which the code does not meet. The claim has the last
  \<open>--compiler=X\<close>, \<open>--compiler X\<close> or \<open>-cX\<close> of the command line decide the compiler.
  In the code an argument \<open>--compiler=X\<close> never changes \<open>comp\<close>: the loop goes on as if
  the argument were not there, for every \<open>X\<close>. With the default compiler \<open>msvc\<close> and
  the command line \<open>setup.py build_ext --compiler=unix\<close>, \<open>compilerName\<close> returns
  \<open>msvc\<close> and the compile arguments are \<open>/Ox\<close> and \<open>-w\<close>, while the two other
  spellings, \<open>--compiler unix\<close> and \<open>-cunix\<close>, give \<open>unix\<close>, whose compile arguments
  are \<open>-O3\<close> and \<open>-w\<close>.
\<close>

theorem compilerName_ignores_long_form:
  "scan_argv c False ((''--compiler='' @ x) # rest) = scan_argv c False rest \<and>
   compilerName env_cross = ([ImportStmt ''distutils.ccompiler''], Inr ''msvc'') \<and>
   cmp_arg ''msvc'' = [''/Ox'', ''-w''] \<and>
   scan_argv ''msvc'' False [''--compiler'', ''unix''] = ''unix'' \<and>
   scan_argv ''msvc'' False [''-cunix''] = ''unix'' \<and>
   cmp_arg ''unix'' = [''-O3'', ''-w'']"
proof -
  have skip: "scan_argv c False ((''--compiler='' @ x) # rest) = scan_argv c False rest"
    by (rule scan_argv_long_form)
  have "scan_argv ''msvc'' False [''--compiler=unix''] = ''msvc''"
    using scan_argv_long_form [of "''msvc''" "''unix''" "[]"] by simp
  then have run: "compilerName env_cross = ([ImportStmt ''distutils.ccompiler''], Inr ''msvc'')"
    by (simp add: compilerName_eq env_cross_def env_prebuilt_def)
  have spaced: "scan_argv ''msvc'' False [''--compiler'', ''unix''] = ''unix''"
    by simp
  have short: "scan_argv ''msvc'' False [''-cunix''] = ''unix''"
    by (simp add: re_short_flag_def re_short_opt_def re_long_opt_def is_lower_def c_end_def
        not_newline_def)
  have args: "cmp_arg ''msvc'' = [''/Ox'', ''-w'']" "cmp_arg ''unix'' = [''-O3'', ''-w'']"
    by (simp_all add: cmp_arg_def)
  from skip run spaced short args show ?thesis
    by blast
qed

subsection \<open>The 64-bit guard\<close>

text \<open>
  Claim C10. When the pointer size is 64 bits, the script never executes
  \<open>import vtk\<close> and never ends with a RuntimeError; and whenever the script ends with
  a RuntimeError, the pointer size is not 64 bits and \<open>vtk\<close> cannot be imported.
\<close>

theorem guard_64bit_only_off_64bit:
  "(calcsize_P E * 8 = 64 \<longrightarrow>
      ImportStmt ''vtk'' \<notin> set (fst (script E)) \<and>
      (\<forall>msg. snd (script E) \<noteq> Inl (RuntimeError msg))) \<and>
   ((\<exists>msg. snd (script E) = Inl (RuntimeError msg)) \<longrightarrow>
      calcsize_P E * 8 \<noteq> 64 \<and> \<not> importable E ''vtk'')"
  using script_no_vtk_on_64 [of E] script_runtime_error [of E] by blast

theorem guard_64bit_only_off_64bit_witness:
  "calcsize_P env_prebuilt * 8 = 64 \<and>
   \<not> importable env_prebuilt ''vtk'' \<and>
   ImportStmt ''vtk'' \<notin> set (fst (script env_prebuilt)) \<and>
   (\<forall>msg. snd (script env_prebuilt) \<noteq> Inl (RuntimeError msg)) \<and>
   snd (script env_32bit) = Inl (RuntimeError (bits64_message ''/usr/bin/python3'')) \<and>
   calcsize_P env_32bit * 8 \<noteq> 64 \<and>
   \<not> importable env_32bit ''vtk''"
proof -
  have a: "calcsize_P env_prebuilt * 8 = 64" "\<not> importable env_prebuilt ''vtk''"
    by (simp_all add: env_prebuilt_def)
  have b: "snd (script env_32bit) = Inl (RuntimeError (bits64_message ''/usr/bin/python3''))"
    by (simp add: script_def snd_and_then import_stmt_eq ensure_numpy_def check_cython_def
        and_then_def emit_def ret_def compilerName_eq read_version_def check_64bit_eq
        env_32bit_def env_prebuilt_def)
  from guard_64bit_only_off_64bit [of env_prebuilt] guard_64bit_only_off_64bit [of env_32bit]
    a b
  show ?thesis by blast
qed

section \<open>Properties of the decoding core's model\<close>

subsection \<open>Binary Cursor\<close>

text \<open>
  Claim C2. For every cursor (every buffer, position and byte order), each of
  \<open>read_i32\<close>, \<open>read_i64\<close>, \<open>read_f32\<close>, \<open>read_f64\<close> and \<open>read_bytes n\<close> whose width
  exceeds the bytes that remain returns \<open>OutOfBounds\<close> together with the very cursor
  it was given, so the position is unchanged. There is no silent truncation: a
  \<open>read_bytes n\<close> that does fit returns exactly \<open>n\<close> bytes and moves the position by
  \<open>n\<close>.
\<close>

theorem cursor_read_past_end:
  "(remaining c < 4 \<longrightarrow> read_i32 c = (Inl OutOfBounds, c)) \<and>
   (remaining c < 8 \<longrightarrow> read_i64 c = (Inl OutOfBounds, c)) \<and>
   (remaining c < 4 \<longrightarrow> read_f32 c = (Inl OutOfBounds, c)) \<and>
   (remaining c < 8 \<longrightarrow> read_f64 c = (Inl OutOfBounds, c)) \<and>
   (remaining c < n \<longrightarrow> read_bytes n c = (Inl OutOfBounds, c)) \<and>
   (n \<le> remaining c \<longrightarrow>
      (\<exists>bs. read_bytes n c = (Inr bs, c\<lparr>position := position c + n\<rparr>) \<and> length bs = n))"
  by (auto simp: read_i32_def read_i64_def read_f32_def read_f64_def read_word_def
      read_bytes_def remaining_def)

theorem cursor_read_past_end_witness:
  "remaining cursor_near_end = 2 \<and>
   read_i32 cursor_near_end = (Inl OutOfBounds, cursor_near_end) \<and>
   read_i64 cursor_near_end = (Inl OutOfBounds, cursor_near_end) \<and>
   read_f32 cursor_near_end = (Inl OutOfBounds, cursor_near_end) \<and>
   read_f64 cursor_near_end = (Inl OutOfBounds, cursor_near_end) \<and>
   read_bytes 3 cursor_near_end = (Inl OutOfBounds, cursor_near_end) \<and>
   read_bytes 2 cursor_near_end = (Inr [0x04, 0x05], cursor_near_end\<lparr>position := 5\<rparr>)"
proof -
  have r: "remaining cursor_near_end = 2"
    by (simp add: remaining_def cursor_near_end_def)
  have ok: "read_bytes 2 cursor_near_end = (Inr [0x04, 0x05], cursor_near_end\<lparr>position := 5\<rparr>)"
    by (simp add: read_bytes_def remaining_def cursor_near_end_def)
  from cursor_read_past_end [of cursor_near_end 3] r ok show ?thesis
    by simp
qed

subsection \<open>Mesh Assembler\<close>

lemma assemble_accepts:
  "assemble nodes elements results = Inr m \<Longrightarrow>
     mesh_nodes m = nodes \<and> mesh_elements m = elements \<and> mesh_results m = results"
  by (auto simp: assemble_def split: option.splits)

lemma assemble_dangling:
  "assemble three_nodes dangling_triangle [] = Inl (DanglingNodeReference 999)"
  by (simp add: assemble_def three_nodes_def dangling_triangle_def)

text \<open>
  Claim C5. Whenever \<open>assemble\<close> accepts a Node Table and an Element Table with no
  Field Results, the node count and the element count re-derived from the Mesh are
  the lengths of the two tables.
\<close>

theorem assemble_keeps_counts:
  assumes "assemble nodes elements [] = Inr m"
  shows "node_count m = length nodes \<and> element_count m = length elements"
  using assemble_accepts [OF assms] by (simp add: node_count_def element_count_def)

theorem assemble_keeps_counts_witness:
  "(\<exists>m. assemble three_nodes one_triangle [] = Inr m \<and>
        node_count m = 3 \<and> element_count m = 1) \<and>
   length three_nodes = 3 \<and> length one_triangle = 1"
proof -
  define m where
    "m = \<lparr>mesh_nodes = three_nodes, mesh_elements = one_triangle, mesh_results = [],
          node_index = index_of_ids (map node_id three_nodes),
          element_index = index_of_ids (map element_id one_triangle)\<rparr>"
  have a: "assemble three_nodes one_triangle [] = Inr m"
    by (simp add: assemble_def three_nodes_def one_triangle_def m_def)
  have l: "length three_nodes = 3" "length one_triangle = 1"
    by (simp_all add: three_nodes_def one_triangle_def)
  from assemble_keeps_counts [OF a] a l show ?thesis
    by auto
qed

end
